theory Spec2Isabelle
  imports Complex_Main "HOL-Library.Multiset"
begin

section \<open>Numbers and exceptions\<close>

text \<open>
  The game is written in Python. Its \<open>float\<close> values (positions, timers, distance, score)
  are modelled as \<open>real\<close>: rounding of the IEEE arithmetic is not part of the model.
  Its \<open>int\<close> values (health, damage, random integer draws) are \<open>int\<close>.

  \<open>int(x)\<close> on a float truncates toward zero.
\<close>

definition py_int :: "real \<Rightarrow> int" where
  "py_int x = (if 0 \<le> x then \<lfloor>x\<rfloor> else \<lceil>x\<rceil>)"

text \<open>
  The exceptions the modelled code could raise: reading an attribute of \<open>None\<close>,
  handing \<open>None\<close> to \<open>arcade.check_for_collision\<close>, and true division by zero.
\<close>

datatype py_error = AttributeError | TypeError | ZeroDivisionError

definition py_div :: "real \<Rightarrow> real \<Rightarrow> py_error + real" where
  "py_div a b = (if b = 0 then Inl ZeroDivisionError else Inr (a / b))"

text \<open>Sequencing of fallible steps: an exception ends the call.\<close>

definition bind_res :: "py_error + 'a \<Rightarrow> ('a \<Rightarrow> py_error + 'b) \<Rightarrow> py_error + 'b" where
  "bind_res m f = (case m of Inl e \<Rightarrow> Inl e | Inr x \<Rightarrow> f x)"

section \<open>Leaderboard file\<close>

text \<open>
  One leaderboard entry is the JSON object \<open>{"name": ..., "score": ...}\<close>. The file on disk
  is \<open>None\<close> when it is missing or cannot be parsed (\<open>json.load\<close> raises and \<open>save_score\<close>
  falls back to the empty list), and \<open>Some\<close> of the list of entries otherwise.
\<close>

record lb_entry =
  e_name :: string
  e_score :: int

type_synonym lb_file = "lb_entry list option"

text \<open>
  \<open>sorted(data, key=..., reverse=True)\<close>: CPython keeps the sort stable under
  \<open>reverse=True\<close> by reversing the list, sorting it with the stable forward sort, and
  reversing the result. \<open>sort_key\<close> is the stable forward sort.
\<close>

definition sorted_reverse :: "('a \<Rightarrow> int) \<Rightarrow> 'a list \<Rightarrow> 'a list" where
  "sorted_reverse key xs = rev (sort_key key (rev xs))"

definition save_score :: "string \<Rightarrow> real \<Rightarrow> lb_file \<Rightarrow> lb_file" where
  "save_score nm sc file =
     (let data = (case file of None \<Rightarrow> [] | Some d \<Rightarrow> d);
          data = data @ [\<lparr>e_name = nm, e_score = py_int sc\<rparr>];
          data = take 10 (sorted_reverse e_score data)
      in Some data)"

definition load_leaderboard :: "lb_file \<Rightarrow> lb_entry list" where
  "load_leaderboard file = (case file of None \<Rightarrow> [] | Some d \<Rightarrow> d)"

section \<open>Sprites, projectiles and the boss\<close>

text \<open>
  Of an \<open>arcade.Sprite\<close> only the position takes part in the game logic; textures and
  animation frames are rendering state and are left out.
\<close>

record sprite =
  center_x :: real
  center_y :: real

record projectile = sprite +
  vx :: real
  vy :: real

record boss = sprite +
  max_health :: int
  health :: int
  shoot_timer :: real
  phase :: int

text \<open>\<open>Projectile.update\<close>: the second component says whether the projectile stays in its lists.\<close>

definition projectile_update :: "projectile \<Rightarrow> projectile \<times> bool" where
  "projectile_update p =
     (let p = p\<lparr>center_x := center_x p + vx p\<rparr>;
          p = p\<lparr>center_y := center_y p + vy p\<rparr>
      in (p, \<not> (center_x p < - 1000 \<or> center_x p > 10000 \<or> center_y p < - 1000 \<or> center_y p > 3000)))"

text \<open>\<open>SpriteList.update\<close> on the projectile list.\<close>

definition update_projectiles :: "projectile list \<Rightarrow> projectile list" where
  "update_projectiles ps = map fst (filter snd (map projectile_update ps))"

text \<open>\<open>Boss.__init__\<close>.\<close>

definition Boss_init :: "boss" where
  "Boss_init = \<lparr>center_x = 0, center_y = 220, max_health = 100, health = 100,
                 shoot_timer = 0, phase = 1\<rparr>"

text \<open>
  \<open>Boss.update_behavior\<close>. The argument \<open>u\<close> is the value that \<open>random.uniform(0.8, 2.0)\<close>
  returns if a volley is fired. Each of the three true divisions is \<open>py_div\<close>.
\<close>

definition update_behavior ::
  "real \<Rightarrow> real \<Rightarrow> real \<Rightarrow> boss \<Rightarrow> projectile list \<Rightarrow> py_error + (boss \<times> projectile list)" where
  "update_behavior u dt player_x b projectiles_list =
     (let b = b\<lparr>shoot_timer := shoot_timer b + dt\<rparr> in
      bind_res (py_div (real_of_int (health b)) (real_of_int (max 1 (max_health b)))) (\<lambda>ratio.
      let (b, interval, speed) =
            (if ratio > 0.66 then (b\<lparr>phase := 1\<rparr>, 1.2, 5.0)
             else if ratio > 0.33 then (b\<lparr>phase := 2, center_x := center_x b - 0.8\<rparr>, 0.9, 6.0)
             else (b\<lparr>phase := 3, center_x := center_x b - 1.4\<rparr>, 0.5, 7.0))
      in if shoot_timer b \<ge> interval then
           (let b = b\<lparr>shoot_timer := 0\<rparr>;
                dx = player_x - center_x b;
                dy = 200 - center_y b;
                dist = max \<bar>dx\<bar> 1
            in bind_res (py_div dx dist) (\<lambda>qx.
               bind_res (py_div dy dist) (\<lambda>qy.
               let vx0 = qx * speed * (1 + (3 - real_of_int (phase b)) * 0.2);
                   vy0 = qy * u;
                   p = \<lparr>center_x = center_x b - 30, center_y = center_y b, vx = vx0, vy = vy0\<rparr>;
                   ps = projectiles_list @ [p];
                   ps = (if phase b = 3
                         then ps @ [\<lparr>center_x = center_x b - 30, center_y = center_y b + 50,
                                     vx = vx0, vy = vy0 + 1.0\<rparr>]
                         else ps)
               in Inr (b, ps))))
         else Inr (b, projectiles_list)))"

section \<open>The game view\<close>

text \<open>
  A particle emitter is an object of the graphics library; the model keeps where it was
  created and how many times \<open>update\<close> has been called on it.
\<close>

record emitter =
  em_x :: real
  em_y :: real
  em_updates :: nat

definition emitter_update :: "emitter \<Rightarrow> emitter" where
  "emitter_update e = e\<lparr>em_updates := Suc (em_updates e)\<rparr>"

text \<open>A damage popup is the tuple \<open>(x, y, val, timeleft)\<close>.\<close>

type_synonym popup = "real \<times> real \<times> int \<times> real"

text \<open>
  The fields of \<open>GameView\<close> that the update loop and the key handler read or write. Every
  \<open>GameView\<close> in the program is built by \<open>__init__\<close> followed at once by \<open>setup\<close>, so
  \<open>player\<close> is the sprite \<open>setup\<close> creates. Cameras, background, sounds and textures are
  left out. \<open>disk_leaderboard\<close> is the leaderboard file \<open>lose_game\<close> writes to.
\<close>

record game =
  player :: sprite
  obstacles :: "sprite list"
  coins :: "sprite list"
  projectiles :: "projectile list"
  explosions :: "emitter list"
  boss :: "boss option"
  boss_active :: bool
  distance :: real
  next_boss_at :: real
  speed :: real
  score :: real
  player_health :: int
  player_max_health :: int
  damage_popups :: "popup list"
  skill_cd :: real
  obstacle_timer :: real
  coin_timer :: real
  game_over :: bool
  result_text :: string
  paused :: bool
  disk_leaderboard :: lb_file

text \<open>
  What one call of \<open>on_update\<close> or \<open>on_key_press\<close> takes from outside the game view: the
  pseudo-random draws, the results of the graphics library's collision tests (they depend
  on hit boxes, which belong to the textures), and whether creating an emitter succeeds.
\<close>

record env =
  rand_obstacle :: int
  rand_coin_x :: int
  rand_coin_y :: int
  rand_uniform :: real
  rand_dmg :: "nat \<Rightarrow> int"
  rand_punch :: int
  hit_coin :: "sprite \<Rightarrow> sprite \<Rightarrow> bool"
  hit_obstacle :: "sprite \<Rightarrow> sprite \<Rightarrow> bool"
  hit_projectile :: "projectile \<Rightarrow> sprite \<Rightarrow> bool"
  hit_boss :: "sprite \<Rightarrow> boss \<Rightarrow> bool"
  emitter_ok :: bool

definition DISTANCE_FOR_BOSS :: real where "DISTANCE_FOR_BOSS = 2000"

definition BASE_SPEED :: real where "BASE_SPEED = 180"

subsection \<open>Spawning\<close>

text \<open>\<open>spawn_obstacle\<close>, with \<open>r\<close> the value of \<open>random.randint(600, 3000)\<close>.\<close>

definition spawn_obstacle :: "int \<Rightarrow> game \<Rightarrow> game" where
  "spawn_obstacle r s =
     (let x = py_int (center_x (player s) + real_of_int r)
      in s\<lparr>obstacles := obstacles s @ [\<lparr>center_x = real_of_int x, center_y = 200\<rparr>]\<rparr>)"

text \<open>\<open>spawn_coin\<close>, with \<open>r\<close> and \<open>ry\<close> the values of \<open>random.randint(500, 2600)\<close> and
  \<open>random.randint(240, 320)\<close>.\<close>

definition spawn_coin :: "int \<Rightarrow> int \<Rightarrow> game \<Rightarrow> game" where
  "spawn_coin r ry s =
     (let x = py_int (center_x (player s) + real_of_int r)
      in s\<lparr>coins := coins s @ [\<lparr>center_x = real_of_int x, center_y = real_of_int ry\<rparr>]\<rparr>)"

definition spawn_boss :: "game \<Rightarrow> game" where
  "spawn_boss s =
     (let b = Boss_init;
          b = b\<lparr>max_health := 80 + py_int (distance s / 500) * 10\<rparr>;
          b = b\<lparr>health := max_health b\<rparr>;
          b = b\<lparr>center_x := center_x (player s) + 900\<rparr>;
          b = b\<lparr>center_y := 220\<rparr>;
          s = s\<lparr>boss := Some b\<rparr>;
          s = s\<lparr>boss_active := True\<rparr>;
          s = s\<lparr>projectiles := []\<rparr>
      in s\<lparr>boss := Some (b\<lparr>shoot_timer := 0\<rparr>)\<rparr>)"

text \<open>\<open>create_explosion\<close>: a failure of the graphics library is swallowed.\<close>

definition create_explosion :: "env \<Rightarrow> real \<Rightarrow> real \<Rightarrow> game \<Rightarrow> game" where
  "create_explosion env x y s =
     (if emitter_ok env
      then s\<lparr>explosions := explosions s @ [\<lparr>em_x = x, em_y = y, em_updates = 0\<rparr>]\<rparr>
      else s)"

subsection \<open>Construction\<close>

text \<open>
  \<open>GameView.__init__\<close>, with \<open>file\<close> the leaderboard on disk. The \<open>player\<close> field, \<open>None\<close>
  until \<open>setup\<close> has run, already holds the sprite \<open>setup\<close> puts there.
\<close>

definition GameView_init :: "lb_file \<Rightarrow> game" where
  "GameView_init file =
     \<lparr>player = \<lparr>center_x = 200, center_y = 200\<rparr>,
      obstacles = [], coins = [], projectiles = [], explosions = [],
      boss = None, boss_active = False,
      distance = 0, next_boss_at = DISTANCE_FOR_BOSS, speed = BASE_SPEED, score = 0,
      player_health = 100, player_max_health = 100, damage_popups = [],
      skill_cd = 0, obstacle_timer = 0, coin_timer = 0,
      game_over = False, result_text = [], paused = False,
      disk_leaderboard = file\<rparr>"

text \<open>
  \<open>GameView.setup\<close>. \<open>ro\<close>, \<open>rc\<close> and \<open>ry\<close> give the random draws of the six initial
  obstacles and the five initial coins. \<open>sprite_list\<close> stands for the graphics library's
  constructor \<open>arcade.SpriteList(...)\<close>, which \<open>setup\<close> calls on the obstacle list and on
  the coin list: what the new list holds is the library's business.
\<close>

definition GameView_setup ::
  "(sprite list \<Rightarrow> sprite list) \<Rightarrow> (nat \<Rightarrow> int) \<Rightarrow> (nat \<Rightarrow> int) \<Rightarrow> (nat \<Rightarrow> int) \<Rightarrow> game \<Rightarrow> game" where
  "GameView_setup sprite_list ro rc ry s =
     (let s = s\<lparr>player := \<lparr>center_x = 200, center_y = 200\<rparr>\<rparr>;
          s = fold (\<lambda>i. spawn_obstacle (ro i)) [0..<6] s;
          s = fold (\<lambda>i. spawn_coin (rc i) (ry i)) [0..<5] s;
          s = s\<lparr>projectiles := []\<rparr>;
          s = s\<lparr>obstacles := sprite_list (obstacles s)\<rparr>;
          s = s\<lparr>coins := sprite_list (coins s)\<rparr>
      in s\<lparr>explosions := []\<rparr>)"

subsection \<open>End of a boss fight, end of the run\<close>

definition win_boss :: "env \<Rightarrow> game \<Rightarrow> py_error + game" where
  "win_boss env s =
     (case boss s of
        None \<Rightarrow> Inl AttributeError
      | Some b \<Rightarrow>
          (let s = create_explosion env (center_x b) (center_y b) s;
               s = s\<lparr>score := score s + 700\<rparr>;
               s = s\<lparr>boss_active := False\<rparr>
           in Inr (s\<lparr>boss := None\<rparr>)))"

text \<open>\<open>lose_game\<close>; the result text is kept without its leading emoji.\<close>

definition lose_game :: "game \<Rightarrow> game" where
  "lose_game s =
     (let s = s\<lparr>game_over := True\<rparr>;
          s = s\<lparr>result_text := ''YOU DIED''\<rparr>
      in s\<lparr>disk_leaderboard :=
             save_score ''Player'' (real_of_int (py_int (score s))) (disk_leaderboard s)\<rparr>)"

subsection \<open>The update loop\<close>

text \<open>The blocks of \<open>on_update\<close>, in the order of the source.\<close>

definition update_emitters :: "game \<Rightarrow> game" where
  "update_emitters s = s\<lparr>explosions := map emitter_update (explosions s)\<rparr>"

definition cooldowns :: "real \<Rightarrow> game \<Rightarrow> game" where
  "cooldowns dt s = (if skill_cd s > 0 then s\<lparr>skill_cd := max 0 (skill_cd s - dt)\<rparr> else s)"

text \<open>Movement and distance: with \<open>dx = speed * dt\<close>, the three additions.\<close>

definition movement :: "real \<Rightarrow> game \<Rightarrow> game" where
  "movement dt s =
     (let dx = speed s * dt;
          s = s\<lparr>player := (player s)\<lparr>center_x := center_x (player s) + dx\<rparr>\<rparr>;
          s = s\<lparr>distance := distance s + dx * 0.6\<rparr>
      in s\<lparr>score := score s + dx * 0.05\<rparr>)"

definition spawn_gradually :: "env \<Rightarrow> real \<Rightarrow> game \<Rightarrow> game" where
  "spawn_gradually env dt s =
     (let s = s\<lparr>obstacle_timer := obstacle_timer s + dt\<rparr>;
          s = s\<lparr>coin_timer := coin_timer s + dt\<rparr>;
          s = (if obstacle_timer s > max 0.6 (2.4 - distance s / 8000)
               then (spawn_obstacle (rand_obstacle env) s)\<lparr>obstacle_timer := 0\<rparr>
               else s)
      in if coin_timer s > max 0.8 (2.3 - distance s / 9000)
         then (spawn_coin (rand_coin_x env) (rand_coin_y env) s)\<lparr>coin_timer := 0\<rparr>
         else s)"

text \<open>Cleanup behind the player: a sprite is removed from its list when the test holds.\<close>

definition cleanup_behind :: "game \<Rightarrow> game" where
  "cleanup_behind s =
     (let s = s\<lparr>obstacles := filter (\<lambda>ob. \<not> center_x ob < center_x (player s) - 900) (obstacles s)\<rparr>
      in s\<lparr>coins := filter (\<lambda>c. \<not> center_x c < center_x (player s) - 900) (coins s)\<rparr>)"

text \<open>The loop over \<open>hit_coins\<close>.\<close>

fun collect_coins :: "sprite list \<Rightarrow> game \<Rightarrow> game" where
  "collect_coins [] s = s"
| "collect_coins (c # cs) s =
     collect_coins cs (s\<lparr>coins := remove1 c (coins s), score := score s + 25\<rparr>)"

definition collide_coins :: "env \<Rightarrow> game \<Rightarrow> game" where
  "collide_coins env s = collect_coins (filter (hit_coin env (player s)) (coins s)) s"

text \<open>The loop over \<open>hit_obs\<close>.\<close>

fun hit_obstacles :: "sprite list \<Rightarrow> game \<Rightarrow> game" where
  "hit_obstacles [] s = s"
| "hit_obstacles (ob # obs) s =
     hit_obstacles obs
       (s\<lparr>obstacles := remove1 ob (obstacles s),
          score := max 0 (score s - 40),
          player := (player s)\<lparr>center_x := max 200 (center_x (player s) - 140)\<rparr>\<rparr>)"

definition collide_obstacles :: "env \<Rightarrow> game \<Rightarrow> game" where
  "collide_obstacles env s = hit_obstacles (filter (hit_obstacle env (player s)) (obstacles s)) s"

definition boss_spawn :: "game \<Rightarrow> game" where
  "boss_spawn s =
     (if \<not> boss_active s \<and> distance s \<ge> next_boss_at s
      then (let s = spawn_boss s
            in s\<lparr>next_boss_at := next_boss_at s + DISTANCE_FOR_BOSS * (1 + distance s / 8000)\<rparr>)
      else s)"

text \<open>
  The loop over the snapshot of the projectile list; \<open>k\<close> counts the damage draws made so
  far in this tick.
\<close>

fun projectile_hits :: "env \<Rightarrow> projectile list \<Rightarrow> nat \<Rightarrow> game \<Rightarrow> game" where
  "projectile_hits env [] k s = s"
| "projectile_hits env (p # ps) k s =
     (if hit_projectile env p (player s)
      then (let s = s\<lparr>projectiles := remove1 p (projectiles s)\<rparr>;
                dmg = rand_dmg env k;
                s = s\<lparr>player_health := player_health s - dmg\<rparr>;
                s = s\<lparr>damage_popups := damage_popups s @
                       [(center_x (player s), center_y (player s) + 80, dmg, 1.0)]\<rparr>;
                s = (if player_health s \<le> 0 then lose_game (s\<lparr>player_health := 0\<rparr>) else s)
            in projectile_hits env ps (Suc k) s)
      else projectile_hits env ps k s)"

text \<open>Boss collision with the player.\<close>

definition boss_contact :: "env \<Rightarrow> game \<Rightarrow> py_error + game" where
  "boss_contact env s =
     (case boss s of
        None \<Rightarrow> Inl TypeError
      | Some b \<Rightarrow>
          if hit_boss env (player s) b
          then (let dmg = 18 + py_int (distance s / 1000);
                    s = s\<lparr>player_health := player_health s - dmg\<rparr>;
                    s = s\<lparr>boss := Some (b\<lparr>health := health b - 40\<rparr>)\<rparr>;
                    s = s\<lparr>damage_popups := damage_popups s @
                           [(center_x (player s), center_y (player s) + 80, dmg, 1.0)]\<rparr>;
                    s = (if player_health s \<le> 0 then lose_game s else s)
                in case boss s of
                     None \<Rightarrow> Inl AttributeError
                   | Some b' \<Rightarrow> if health b' \<le> 0 then win_boss env s else Inr s)
          else Inr s)"

definition boss_behavior :: "env \<Rightarrow> real \<Rightarrow> game \<Rightarrow> py_error + game" where
  "boss_behavior env dt s =
     (if boss_active s \<and> boss s \<noteq> None
      then (case boss s of
              None \<Rightarrow> Inl AttributeError
            | Some b \<Rightarrow>
                bind_res (update_behavior (rand_uniform env) dt (center_x (player s)) b (projectiles s))
                  (\<lambda>(b', ps).
                     let s = s\<lparr>boss := Some b', projectiles := ps\<rparr>;
                         s = s\<lparr>projectiles := update_projectiles (projectiles s)\<rparr>;
                         s = projectile_hits env (projectiles s) 0 s
                     in bind_res (boss_contact env s)
                          (\<lambda>s. case boss s of
                                 None \<Rightarrow> Inr s
                               | Some b'' \<Rightarrow> if health b'' \<le> 0 then win_boss env s else Inr s)))
      else Inr s)"

definition update_popups :: "real \<Rightarrow> game \<Rightarrow> game" where
  "update_popups dt s =
     s\<lparr>damage_popups :=
         map (\<lambda>(x, y, v, t). (x, y, v, t - dt))
             (filter (\<lambda>(x, y, v, t). t - dt > 0) (damage_popups s))\<rparr>"

definition on_update :: "env \<Rightarrow> real \<Rightarrow> game \<Rightarrow> py_error + game" where
  "on_update env dt s =
     (if game_over s
      then Inr (s\<lparr>explosions := map emitter_update (explosions s)\<rparr>)
      else (let s = update_emitters s;
                s = cooldowns dt s;
                s = movement dt s;
                s = spawn_gradually env dt s;
                s = cleanup_behind s;
                s = collide_coins env s;
                s = collide_obstacles env s;
                s = boss_spawn s
            in bind_res (boss_behavior env dt s) (\<lambda>s. Inr (update_popups dt s))))"

subsection \<open>Input\<close>

datatype key = ESCAPE | R | SPACE | Z | X | OtherKey

text \<open>The calls of \<open>window.show_view\<close> a key press makes.\<close>

datatype nav = ShowMenuView | ShowNewGameView

text \<open>Punch, with \<open>rand_punch\<close> the value of \<open>random.randint(8, 16)\<close>.\<close>

definition punch :: "env \<Rightarrow> game \<Rightarrow> py_error + game" where
  "punch env s =
     (case boss s of
        Some b \<Rightarrow>
          if boss_active s \<and> \<bar>center_x b - center_x (player s)\<bar> < 140
          then (let dmg = rand_punch env;
                    b = b\<lparr>health := health b - dmg\<rparr>;
                    s = s\<lparr>boss := Some b\<rparr>;
                    s = s\<lparr>damage_popups := damage_popups s @
                           [(center_x b, center_y b + 100, dmg, 0.9)]\<rparr>
                in if health b \<le> 0 then win_boss env s else Inr s)
          else Inr s
      | None \<Rightarrow> Inr s)"

text \<open>Skill with cooldown.\<close>

definition skill :: "env \<Rightarrow> game \<Rightarrow> py_error + game" where
  "skill env s =
     (if skill_cd s \<le> 0
      then (let s = s\<lparr>skill_cd := 3.0\<rparr>;
                dmg = 40 + py_int (distance s / 1000)
            in if boss_active s \<and> boss s \<noteq> None
               then (case boss s of
                       None \<Rightarrow> Inl AttributeError
                     | Some b \<Rightarrow>
                         (let b = b\<lparr>health := health b - dmg\<rparr>;
                              s = s\<lparr>boss := Some b\<rparr>;
                              s = s\<lparr>damage_popups := damage_popups s @
                                     [(center_x b, center_y b + 100, dmg, 1.2)]\<rparr>
                          in if health b \<le> 0 then win_boss env s else Inr s))
               else Inr (s\<lparr>obstacles :=
                            filter (\<lambda>ob. \<not> \<bar>center_x ob - center_x (player s)\<bar> < 220) (obstacles s)\<rparr>))
      else Inr s)"

definition on_key_press :: "env \<Rightarrow> key \<Rightarrow> game \<Rightarrow> py_error + (game \<times> nav list)" where
  "on_key_press env k s =
     (let navs = (if k = ESCAPE then [ShowMenuView] else [])
      in if game_over s
         then Inr (s, if k = R then navs @ [ShowNewGameView] else navs)
         else if k = SPACE
           then Inr (s\<lparr>player := (player s)\<lparr>center_y := center_y (player s) + 90\<rparr>\<rparr>, navs)
         else if k = Z then bind_res (punch env s) (\<lambda>s. Inr (s, navs))
         else if k = X then bind_res (skill env s) (\<lambda>s. Inr (s, navs))
         else Inr (s, navs))"

section \<open>Properties stated in the words of the specification\<close>

text \<open>
  The boss invariant: \<open>boss_active\<close> is true exactly when the \<open>boss\<close> field holds a boss.
\<close>

definition boss_inv :: "game \<Rightarrow> bool" where
  "boss_inv s = (boss_active s = (boss s \<noteq> None))"

text \<open>
  The leaderboard the persistence contract asks for, given the combined list \<open>xs\<close> in
  insertion order: \<open>ys\<close> holds the entries of \<open>xs\<close>, in descending order of score,
  entries of equal score in their order in \<open>xs\<close>; the stored list is its first ten.
\<close>

definition ranked :: "lb_entry list \<Rightarrow> lb_entry list \<Rightarrow> bool" where
  "ranked xs ys =
     (mset ys = mset xs \<and>
      sorted_wrt (\<lambda>a b. e_score a \<ge> e_score b) ys \<and>
      (\<forall>k. filter (\<lambda>e. e_score e = k) ys = filter (\<lambda>e. e_score e = k) xs))"

section \<open>Example inputs\<close>

text \<open>An environment in which nothing collides, and one in which the boss touches the player.\<close>

definition quiet_env :: env where
  "quiet_env =
     \<lparr>rand_obstacle = 600, rand_coin_x = 500, rand_coin_y = 240, rand_uniform = 1,
      rand_dmg = (\<lambda>k. 18), rand_punch = 8,
      hit_coin = (\<lambda>p c. False), hit_obstacle = (\<lambda>p ob. False),
      hit_projectile = (\<lambda>q p. False), hit_boss = (\<lambda>p b. False), emitter_ok = True\<rparr>"

definition contact_env :: env where
  "contact_env = quiet_env\<lparr>hit_boss := (\<lambda>p b. True)\<rparr>"

text \<open>
  A running game shortly before the first boss: the player has run 3330 units, which gave
  distance 1998 and score 166.5; one obstacle is 100 units ahead, one 800 units ahead.
\<close>

definition running_game :: game where
  "running_game =
     \<lparr>player = \<lparr>center_x = 3530, center_y = 200\<rparr>,
      obstacles = [\<lparr>center_x = 3630, center_y = 200\<rparr>, \<lparr>center_x = 4330, center_y = 200\<rparr>],
      coins = [], projectiles = [], explosions = [],
      boss = None, boss_active = False,
      distance = 1998, next_boss_at = 2000, speed = 180, score = 333 / 2,
      player_health = 100, player_max_health = 100, damage_popups = [],
      skill_cd = 0, obstacle_timer = 0, coin_timer = 0,
      game_over = False, result_text = [], paused = False,
      disk_leaderboard = None\<rparr>"

text \<open>
  The first boss fight: the boss (120 health, spawned at distance 2001.6) stands 50 units
  from the player, who is down to 10 health.
\<close>

definition fight_game :: game where
  "fight_game =
     \<lparr>player = \<lparr>center_x = 3700, center_y = 200\<rparr>,
      obstacles = [], coins = [], projectiles = [], explosions = [],
      boss = Some \<lparr>center_x = 3750, center_y = 220, max_health = 120, health = 120,
                   shoot_timer = 1 / 5, phase = 1\<rparr>,
      boss_active = True,
      distance = 2100, next_boss_at = 22502 / 5, speed = 180, score = 175,
      player_health = 10, player_max_health = 100, damage_popups = [],
      skill_cd = 0, obstacle_timer = 1 / 10, coin_timer = 1 / 10,
      game_over = False, result_text = [], paused = False,
      disk_leaderboard = None\<rparr>"

text \<open>
  A game that ended when player and boss touched and both went down in the same tick: no
  boss is left, the emitter of the boss explosion and the popup of the last hit (59/60 s
  left) are still there, and an obstacle stands 100 units ahead of the player.
\<close>

definition over_game :: game where
  "over_game =
     \<lparr>player = \<lparr>center_x = 3800, center_y = 200\<rparr>,
      obstacles = [\<lparr>center_x = 3900, center_y = 200\<rparr>, \<lparr>center_x = 4600, center_y = 200\<rparr>],
      coins = [], projectiles = [],
      explosions = [\<lparr>em_x = 3850, em_y = 220, em_updates = 0\<rparr>],
      boss = None, boss_active = False,
      distance = 2160, next_boss_at = 22502 / 5, speed = 180, score = 880,
      player_health = 0, player_max_health = 100,
      damage_popups = [(3800, 280, 20, 59 / 60)],
      skill_cd = 0, obstacle_timer = 3 / 10, coin_timer = 2 / 5,
      game_over = True, result_text = ''YOU DIED'', paused = False,
      disk_leaderboard = Some [\<lparr>e_name = ''Player'', e_score = 880\<rparr>]\<rparr>"

section \<open>Auxiliary facts\<close>

subsection \<open>Fallible steps\<close>

lemma py_div_Inr: "b \<noteq> 0 \<Longrightarrow> py_div a b = Inr (a / b)"
  by (simp add: py_div_def)

lemma bind_res_Inr [simp]: "bind_res (Inr x) f = f x"
  by (simp add: bind_res_def)

lemma bind_res_Inl [simp]: "bind_res (Inl e) f = Inl e"
  by (simp add: bind_res_def)

lemma update_behavior_total: "\<exists>b' ps'. update_behavior u dt px b ps = Inr (b', ps')"
  unfolding update_behavior_def Let_def
  by (simp add: py_div_Inr split: prod.splits)

lemma update_behavior_phase:
  "1 \<le> max_health b \<Longrightarrow> update_behavior u dt px b ps = Inr (b', ps') \<Longrightarrow>
   phase b' = (if real_of_int (health b) / real_of_int (max_health b) > 0.66 then 1
               else if real_of_int (health b) / real_of_int (max_health b) > 0.33 then 2 else 3)"
  unfolding update_behavior_def Let_def
  by (auto simp add: py_div_Inr max_def split: prod.splits if_splits)

subsection \<open>What each block of the update loop leaves alone\<close>

lemma update_emitters_frame [simp]:
  "boss (update_emitters s) = boss s"
  "boss_active (update_emitters s) = boss_active s"
  "player_health (update_emitters s) = player_health s"
  "distance (update_emitters s) = distance s"
  "next_boss_at (update_emitters s) = next_boss_at s"
  "speed (update_emitters s) = speed s"
  "player (update_emitters s) = player s"
  by (simp_all add: update_emitters_def)

lemma cooldowns_frame [simp]:
  "boss (cooldowns dt s) = boss s"
  "boss_active (cooldowns dt s) = boss_active s"
  "player_health (cooldowns dt s) = player_health s"
  "distance (cooldowns dt s) = distance s"
  "next_boss_at (cooldowns dt s) = next_boss_at s"
  "speed (cooldowns dt s) = speed s"
  "player (cooldowns dt s) = player s"
  by (simp_all add: cooldowns_def)

lemma movement_frame [simp]:
  "boss (movement dt s) = boss s"
  "boss_active (movement dt s) = boss_active s"
  "player_health (movement dt s) = player_health s"
  "next_boss_at (movement dt s) = next_boss_at s"
  by (simp_all add: movement_def Let_def)

lemma movement_distance [simp]: "distance (movement dt s) = distance s + speed s * dt * 0.6"
  by (simp add: movement_def Let_def)

lemma spawn_gradually_frame [simp]:
  "boss (spawn_gradually env dt s) = boss s"
  "boss_active (spawn_gradually env dt s) = boss_active s"
  "player_health (spawn_gradually env dt s) = player_health s"
  "distance (spawn_gradually env dt s) = distance s"
  "next_boss_at (spawn_gradually env dt s) = next_boss_at s"
  by (simp_all add: spawn_gradually_def spawn_obstacle_def spawn_coin_def Let_def)

lemma cleanup_behind_frame [simp]:
  "boss (cleanup_behind s) = boss s"
  "boss_active (cleanup_behind s) = boss_active s"
  "player_health (cleanup_behind s) = player_health s"
  "distance (cleanup_behind s) = distance s"
  "next_boss_at (cleanup_behind s) = next_boss_at s"
  by (simp_all add: cleanup_behind_def Let_def)

lemma collect_coins_frame [simp]:
  "boss (collect_coins cs s) = boss s"
  "boss_active (collect_coins cs s) = boss_active s"
  "player_health (collect_coins cs s) = player_health s"
  "distance (collect_coins cs s) = distance s"
  "next_boss_at (collect_coins cs s) = next_boss_at s"
  by (induction cs arbitrary: s; simp)+

lemma collide_coins_frame [simp]:
  "boss (collide_coins env s) = boss s"
  "boss_active (collide_coins env s) = boss_active s"
  "player_health (collide_coins env s) = player_health s"
  "distance (collide_coins env s) = distance s"
  "next_boss_at (collide_coins env s) = next_boss_at s"
  by (simp_all add: collide_coins_def)

lemma hit_obstacles_frame [simp]:
  "boss (hit_obstacles obs s) = boss s"
  "boss_active (hit_obstacles obs s) = boss_active s"
  "player_health (hit_obstacles obs s) = player_health s"
  "distance (hit_obstacles obs s) = distance s"
  "next_boss_at (hit_obstacles obs s) = next_boss_at s"
  by (induction obs arbitrary: s; simp)+

lemma collide_obstacles_frame [simp]:
  "boss (collide_obstacles env s) = boss s"
  "boss_active (collide_obstacles env s) = boss_active s"
  "player_health (collide_obstacles env s) = player_health s"
  "distance (collide_obstacles env s) = distance s"
  "next_boss_at (collide_obstacles env s) = next_boss_at s"
  by (simp_all add: collide_obstacles_def)

lemma boss_spawn_frame [simp]:
  "player_health (boss_spawn s) = player_health s"
  "distance (boss_spawn s) = distance s"
  by (simp_all add: boss_spawn_def spawn_boss_def Let_def)

lemma boss_spawn_idle:
  "boss_active s \<or> distance s < next_boss_at s \<Longrightarrow> boss_spawn s = s"
  by (auto simp add: boss_spawn_def)

lemma boss_spawn_inv: "boss_inv s \<Longrightarrow> boss_inv (boss_spawn s)"
  by (simp add: boss_spawn_def spawn_boss_def boss_inv_def Let_def)

lemma boss_spawn_threshold:
  "next_boss_at (boss_spawn s) =
     (if \<not> boss_active s \<and> next_boss_at s \<le> distance s
      then next_boss_at s + 2000 * (1 + distance s / 8000) else next_boss_at s)"
  by (simp add: boss_spawn_def spawn_boss_def DISTANCE_FOR_BOSS_def Let_def)

lemma update_popups_frame [simp]:
  "boss (update_popups dt s) = boss s"
  "boss_active (update_popups dt s) = boss_active s"
  "player_health (update_popups dt s) = player_health s"
  "distance (update_popups dt s) = distance s"
  "next_boss_at (update_popups dt s) = next_boss_at s"
  "game_over (update_popups dt s) = game_over s"
  by (simp_all add: update_popups_def)

lemma lose_game_frame [simp]:
  "boss (lose_game s) = boss s"
  "boss_active (lose_game s) = boss_active s"
  "player_health (lose_game s) = player_health s"
  "distance (lose_game s) = distance s"
  "next_boss_at (lose_game s) = next_boss_at s"
  "player (lose_game s) = player s"
  "game_over (lose_game s)"
  by (simp_all add: lose_game_def Let_def)

lemma create_explosion_frame [simp]:
  "boss (create_explosion env x y s) = boss s"
  "boss_active (create_explosion env x y s) = boss_active s"
  "player_health (create_explosion env x y s) = player_health s"
  "distance (create_explosion env x y s) = distance s"
  "next_boss_at (create_explosion env x y s) = next_boss_at s"
  "game_over (create_explosion env x y s) = game_over s"
  "score (create_explosion env x y s) = score s"
  by (simp_all add: create_explosion_def)

lemma create_explosion_skill_cd [simp]: "skill_cd (create_explosion env x y s) = skill_cd s"
  by (simp add: create_explosion_def)

lemma win_boss_Some:
  "boss s = Some b \<Longrightarrow>
   \<exists>s'. win_boss env s = Inr s' \<and> boss s' = None \<and> \<not> boss_active s' \<and>
        player_health s' = player_health s \<and> distance s' = distance s \<and>
        next_boss_at s' = next_boss_at s \<and> game_over s' = game_over s"
  by (simp add: win_boss_def Let_def)

lemma win_boss_eq:
  "boss s = Some b \<Longrightarrow>
   win_boss env s =
     Inr ((create_explosion env (center_x b) (center_y b) s)
            \<lparr>score := score s + 700, boss_active := False, boss := None\<rparr>)"
  by (simp add: win_boss_def Let_def)

lemma projectile_hits_frame [simp]:
  "boss (projectile_hits env ps k s) = boss s"
  "boss_active (projectile_hits env ps k s) = boss_active s"
  "distance (projectile_hits env ps k s) = distance s"
  "next_boss_at (projectile_hits env ps k s) = next_boss_at s"
  "player (projectile_hits env ps k s) = player s"
  by (induction ps arbitrary: k s; simp add: Let_def)+

lemma projectile_hits_none:
  "\<forall>p \<in> set ps. \<not> hit_projectile env p (player s) \<Longrightarrow> projectile_hits env ps k s = s"
  by (induction ps arbitrary: k s) simp_all

subsection \<open>The boss block\<close>

lemma boss_contact_ok:
  assumes "boss s = Some b"
  shows "\<exists>s'. boss_contact env s = Inr s' \<and> distance s' = distance s \<and>
              next_boss_at s' = next_boss_at s \<and>
              (boss s' = None \<and> \<not> boss_active s' \<or> boss s' \<noteq> None \<and> boss_active s' = boss_active s)"
proof (cases "hit_boss env (player s) b")
  case False
  with assms show ?thesis by (simp add: boss_contact_def)
next
  case True
  define dmg where "dmg = 18 + py_int (distance s / 1000)"
  define s1 where "s1 = s\<lparr>player_health := player_health s - dmg,
      boss := Some (b\<lparr>health := health b - 40\<rparr>),
      damage_popups := damage_popups s @ [(center_x (player s), center_y (player s) + 80, dmg, 1.0)]\<rparr>"
  define s2 where "s2 = (if player_health s1 \<le> 0 then lose_game s1 else s1)"
  have b2: "boss s2 = Some (b\<lparr>health := health b - 40\<rparr>)"
    and f2: "distance s2 = distance s" "next_boss_at s2 = next_boss_at s" "boss_active s2 = boss_active s"
    by (simp_all add: s2_def s1_def)
  have eq: "boss_contact env s =
      (if health b - 40 \<le> 0 then win_boss env s2 else Inr s2)"
    using assms True by (simp add: boss_contact_def Let_def s2_def s1_def dmg_def)
  show ?thesis
  proof (cases "health b - 40 \<le> 0")
    case True
    with eq win_boss_Some[OF b2, of env] f2 show ?thesis by auto
  next
    case False
    with eq b2 f2 show ?thesis by simp
  qed
qed

lemma boss_contact_health:
  assumes "boss s = Some b" and "hit_boss env (player s) b" and "boss_contact env s = Inr s'"
  shows "player_health s' = player_health s - (18 + py_int (distance s / 1000))"
proof -
  define dmg where "dmg = 18 + py_int (distance s / 1000)"
  define s1 where "s1 = s\<lparr>player_health := player_health s - dmg,
      boss := Some (b\<lparr>health := health b - 40\<rparr>),
      damage_popups := damage_popups s @ [(center_x (player s), center_y (player s) + 80, dmg, 1.0)]\<rparr>"
  define s2 where "s2 = (if player_health s1 \<le> 0 then lose_game s1 else s1)"
  have b2: "boss s2 = Some (b\<lparr>health := health b - 40\<rparr>)"
    and h2: "player_health s2 = player_health s - dmg"
    by (simp_all add: s2_def s1_def)
  have eq: "boss_contact env s =
      (if health b - 40 \<le> 0 then win_boss env s2 else Inr s2)"
    using assms(1,2) by (simp add: boss_contact_def Let_def s2_def s1_def dmg_def)
  show ?thesis
  proof (cases "health b - 40 \<le> 0")
    case True
    with eq win_boss_Some[OF b2, of env] h2 assms(3) show ?thesis by (auto simp: dmg_def)
  next
    case False
    with eq h2 assms(3) show ?thesis by (simp add: dmg_def)
  qed
qed

lemma boss_behavior_ok:
  "\<exists>s'. boss_behavior env dt s = Inr s' \<and> distance s' = distance s \<and>
        next_boss_at s' = next_boss_at s \<and> (boss_inv s \<longrightarrow> boss_inv s')"
proof (cases "boss_active s \<and> boss s \<noteq> None")
  case False
  then show ?thesis by (simp add: boss_behavior_def)
next
  case True
  then obtain b where b: "boss s = Some b" and act: "boss_active s" by auto
  obtain b' ps where ub:
    "update_behavior (rand_uniform env) dt (center_x (player s)) b (projectiles s) = Inr (b', ps)"
    using update_behavior_total by blast
  define s1 where "s1 = projectile_hits env (update_projectiles ps) 0
      (s\<lparr>boss := Some b', projectiles := update_projectiles ps\<rparr>)"
  have f1: "boss s1 = Some b'" "boss_active s1" "distance s1 = distance s"
    "next_boss_at s1 = next_boss_at s"
    using act by (simp_all add: s1_def)
  have eq: "boss_behavior env dt s =
      bind_res (boss_contact env s1)
        (\<lambda>s. case boss s of None \<Rightarrow> Inr s
             | Some b'' \<Rightarrow> if health b'' \<le> 0 then win_boss env s else Inr s)"
    using True b ub by (simp add: boss_behavior_def Let_def s1_def)
  obtain s2 where c: "boss_contact env s1 = Inr s2" "distance s2 = distance s1"
      "next_boss_at s2 = next_boss_at s1"
      "boss s2 = None \<and> \<not> boss_active s2 \<or> boss s2 \<noteq> None \<and> boss_active s2 = boss_active s1"
    using boss_contact_ok[OF f1(1), of env] by blast
  show ?thesis
  proof (cases "boss s2")
    case None
    with eq c f1 show ?thesis by (auto simp: boss_inv_def)
  next
    case (Some b2)
    show ?thesis
    proof (cases "health b2 \<le> 0")
      case True
      with eq c f1 Some win_boss_Some[OF Some, of env] show ?thesis
        by (auto simp: boss_inv_def)
    next
      case False
      with eq c f1 Some show ?thesis by (auto simp: boss_inv_def)
    qed
  qed
qed

lemma boss_behavior_contact_health:
  assumes b: "boss s = Some b" and act: "boss_active s"
    and nohit: "\<And>p q. \<not> hit_projectile env p q" and touch: "\<And>q c. hit_boss env q c"
    and res: "boss_behavior env dt s = Inr s'"
  shows "player_health s' = player_health s - (18 + py_int (distance s / 1000))"
proof -
  obtain b' ps where ub:
    "update_behavior (rand_uniform env) dt (center_x (player s)) b (projectiles s) = Inr (b', ps)"
    using update_behavior_total by blast
  define s0 where "s0 = s\<lparr>boss := Some b', projectiles := update_projectiles ps\<rparr>"
  define s1 where "s1 = projectile_hits env (update_projectiles ps) 0 s0"
  have s1: "s1 = s0"
    unfolding s1_def by (rule projectile_hits_none) (simp add: nohit)
  have f1: "boss s1 = Some b'" "player_health s1 = player_health s" "distance s1 = distance s"
    by (simp_all add: s1 s0_def)
  have eq: "boss_behavior env dt s =
      bind_res (boss_contact env s1)
        (\<lambda>s. case boss s of None \<Rightarrow> Inr s
             | Some b'' \<Rightarrow> if health b'' \<le> 0 then win_boss env s else Inr s)"
    using b act ub by (simp add: boss_behavior_def Let_def s1_def s0_def)
  obtain s2 where c: "boss_contact env s1 = Inr s2"
    using boss_contact_ok[OF f1(1), of env] by blast
  have h2: "player_health s2 = player_health s - (18 + py_int (distance s / 1000))"
    using boss_contact_health[OF f1(1) touch c] f1 by simp
  show ?thesis
  proof (cases "boss s2")
    case None
    with eq c res h2 show ?thesis by simp
  next
    case (Some b2)
    show ?thesis
    proof (cases "health b2 \<le> 0")
      case True
      with eq c res h2 Some win_boss_Some[OF Some, of env] show ?thesis by auto
    next
      case False
      with eq c res h2 Some show ?thesis by simp
    qed
  qed
qed

subsection \<open>One tick\<close>

lemma on_update_running:
  "\<not> game_over s \<Longrightarrow>
   on_update env dt s =
     bind_res (boss_behavior env dt
        (boss_spawn (collide_obstacles env (collide_coins env (cleanup_behind
           (spawn_gradually env dt (movement dt (cooldowns dt (update_emitters s)))))))))
       (\<lambda>s. Inr (update_popups dt s))"
  by (simp add: on_update_def Let_def)

lemma on_update_over:
  "game_over s \<Longrightarrow> on_update env dt s = Inr (s\<lparr>explosions := map emitter_update (explosions s)\<rparr>)"
  by (simp add: on_update_def)

lemma on_update_ok:
  assumes "\<not> game_over s"
  shows "\<exists>s'. on_update env dt s = Inr s' \<and>
           distance s' = distance s + speed s * dt * 0.6 \<and>
           next_boss_at s' =
             (if \<not> boss_active s \<and> next_boss_at s \<le> distance s'
              then next_boss_at s + 2000 * (1 + distance s' / 8000) else next_boss_at s) \<and>
           (boss_inv s \<longrightarrow> boss_inv s')"
proof -
  define s7 where "s7 = collide_obstacles env (collide_coins env (cleanup_behind
           (spawn_gradually env dt (movement dt (cooldowns dt (update_emitters s))))))"
  have f7: "distance s7 = distance s + speed s * dt * 0.6" "next_boss_at s7 = next_boss_at s"
    "boss_active s7 = boss_active s" "boss s7 = boss s"
    by (simp_all add: s7_def)
  have i7: "boss_inv s \<longrightarrow> boss_inv (boss_spawn s7)"
    using boss_spawn_inv[of s7] f7 by (simp add: boss_inv_def)
  obtain s' where b: "boss_behavior env dt (boss_spawn s7) = Inr s'"
      "distance s' = distance (boss_spawn s7)" "next_boss_at s' = next_boss_at (boss_spawn s7)"
      "boss_inv (boss_spawn s7) \<longrightarrow> boss_inv s'"
    using boss_behavior_ok[of env dt "boss_spawn s7"] by blast
  have "on_update env dt s = Inr (update_popups dt s')"
    using assms b(1) by (simp add: on_update_running s7_def)
  moreover have "boss_inv s \<longrightarrow> boss_inv (update_popups dt s')"
    using i7 b(4) by (simp add: boss_inv_def)
  ultimately show ?thesis
    using b(2,3) f7 by (simp add: boss_spawn_threshold)
qed

lemma on_update_contact_health:
  assumes run: "\<not> game_over s" and b: "boss s = Some b" and act: "boss_active s"
    and nohit: "\<And>p q. \<not> hit_projectile env p q" and touch: "\<And>q c. hit_boss env q c"
    and res: "on_update env dt s = Inr s'"
  shows "player_health s' =
           player_health s - (18 + py_int ((distance s + speed s * dt * 0.6) / 1000))"
proof -
  define s7 where "s7 = collide_obstacles env (collide_coins env (cleanup_behind
           (spawn_gradually env dt (movement dt (cooldowns dt (update_emitters s))))))"
  have f7: "distance s7 = distance s + speed s * dt * 0.6" "player_health s7 = player_health s"
    "boss_active s7" "boss s7 = Some b"
    using b act by (simp_all add: s7_def)
  have idle: "boss_spawn s7 = s7"
    using f7(3) by (simp add: boss_spawn_idle)
  obtain s8 where s8: "boss_behavior env dt s7 = Inr s8"
    using boss_behavior_ok[of env dt s7] by blast
  have "s' = update_popups dt s8"
    using run res s8 idle by (simp add: on_update_running s7_def[symmetric])
  moreover have "player_health s8 = player_health s7 - (18 + py_int (distance s7 / 1000))"
    using boss_behavior_contact_health[OF f7(4) f7(3) nohit touch s8] .
  ultimately show ?thesis
    using f7 by simp
qed

subsection \<open>Key presses\<close>

lemma skill_cooling: "0 < skill_cd s \<Longrightarrow> skill env s = Inr s"
  by (simp add: skill_def)

lemma skill_clear:
  "skill_cd s \<le> 0 \<Longrightarrow> \<not> (boss_active s \<and> boss s \<noteq> None) \<Longrightarrow>
   skill env s =
     Inr (s\<lparr>skill_cd := 3,
            obstacles := filter (\<lambda>ob. 220 \<le> \<bar>center_x ob - center_x (player s)\<bar>) (obstacles s)\<rparr>)"
  by (simp add: skill_def Let_def not_less)

lemma skill_ready:
  assumes "skill_cd s \<le> 0"
  shows "\<exists>s'. skill env s = Inr s' \<and> skill_cd s' = 3 \<and> (boss_inv s \<longrightarrow> boss_inv s')"
proof (cases "boss_active s \<and> boss s \<noteq> None")
  case False
  with assms show ?thesis by (auto simp add: skill_clear boss_inv_def)
next
  case True
  then obtain b where b: "boss s = Some b" by auto
  with True assms show ?thesis
    by (simp add: skill_def Let_def win_boss_eq boss_inv_def)
qed

lemma punch_ok: "\<exists>s'. punch env s = Inr s' \<and> (boss_inv s \<longrightarrow> boss_inv s')"
  by (cases "boss s") (simp_all add: punch_def Let_def win_boss_eq boss_inv_def)

lemma on_key_press_X:
  "on_key_press env X s = (if game_over s then Inr (s, []) else bind_res (skill env s) (\<lambda>s. Inr (s, [])))"
  by (simp add: on_key_press_def)

lemma on_key_press_ok:
  "\<exists>s' navs. on_key_press env k s = Inr (s', navs) \<and> (boss_inv s \<longrightarrow> boss_inv s')"
proof (cases "game_over s")
  case True
  then show ?thesis by (simp add: on_key_press_def)
next
  case False
  note run = this
  show ?thesis
  proof (cases k)
    case Z
    with run punch_ok[of env s] show ?thesis by (auto simp add: on_key_press_def)
  next
    case X
    show ?thesis
    proof (cases "0 < skill_cd s")
      case True
      with run X show ?thesis by (simp add: on_key_press_X skill_cooling)
    next
      case False
      then have "skill_cd s \<le> 0" by simp
      from skill_ready[OF this, of env] run X show ?thesis
        by (auto simp add: on_key_press_X)
    qed
  qed (use run in \<open>simp_all add: on_key_press_def boss_inv_def\<close>)
qed

subsection \<open>Construction and the leaderboard\<close>

lemma fold_spawn_obstacle_boss [simp]:
  "boss (fold (\<lambda>i. spawn_obstacle (f i)) xs s) = boss s"
  "boss_active (fold (\<lambda>i. spawn_obstacle (f i)) xs s) = boss_active s"
  by (induction xs arbitrary: s; simp add: spawn_obstacle_def Let_def)+

lemma fold_spawn_coin_boss [simp]:
  "boss (fold (\<lambda>i. spawn_coin (f i) (g i)) xs s) = boss s"
  "boss_active (fold (\<lambda>i. spawn_coin (f i) (g i)) xs s) = boss_active s"
  by (induction xs arbitrary: s; simp add: spawn_coin_def Let_def)+

lemma setup_inv: "boss_inv s \<Longrightarrow> boss_inv (GameView_setup mk ro rc ry s)"
  by (simp add: GameView_setup_def boss_inv_def Let_def)

lemma sorted_reverse_ranked: "ranked xs (sorted_reverse e_score xs)"
proof -
  have "sorted (map e_score (sort_key e_score (rev xs)))"
    by simp
  then have "sorted_wrt (\<lambda>a b. e_score b \<le> e_score a) (rev (sort_key e_score (rev xs)))"
    by (simp add: sorted_wrt_rev sorted_map)
  moreover have "filter (\<lambda>e. e_score e = k) (rev (sort_key e_score (rev xs))) =
      filter (\<lambda>e. e_score e = k) xs" for k
    by (simp add: rev_filter[symmetric] sort_key_stable)
  ultimately show ?thesis
    by (simp add: ranked_def sorted_reverse_def)
qed

lemma save_score_example:
  "save_score ''A'' 5 (Some [\<lparr>e_name = ''B'', e_score = 5\<rparr>, \<lparr>e_name = ''C'', e_score = 7\<rparr>]) =
     Some [\<lparr>e_name = ''C'', e_score = 7\<rparr>, \<lparr>e_name = ''B'', e_score = 5\<rparr>, \<lparr>e_name = ''A'', e_score = 5\<rparr>]"
  by (simp add: save_score_def sorted_reverse_def py_int_def Let_def)

section \<open>Health and score ranges (C1)\<close>

text \<open>
  Claim C1 says that after every mutation of a tick or an input command the player's health
  lies between 0 and \<open>player_max_health\<close> and the score is not negative, every write
  path clamping into these ranges. The projectile loop does reset a health that has dropped
  to 0 or below to 0. The boss collision does not: it subtracts the damage and only tests
  the result. In \<open>fight_game\<close> the player has 10 health and the boss touches the player; the
  damage is \<open>18 + int(2101.8 / 1000) = 20\<close>, and the tick leaves the health at \<open>-10\<close>.
\<close>

theorem boss_contact_health_unclamped: "\<exists>s'. on_update contact_env (1/60) fight_game = Inr s' \<and> player_health s' = - 10"
proof -
  have run: "\<not> game_over fight_game"
    by (simp add: fight_game_def)
  obtain s' where s': "on_update contact_env (1/60) fight_game = Inr s'"
    using on_update_ok[OF run] by blast
  have "player_health s' = player_health fight_game -
      (18 + py_int ((distance fight_game + speed fight_game * (1/60) * 0.6) / 1000))"
    by (rule on_update_contact_health[OF run _ _ _ _ s'])
       (simp_all add: fight_game_def contact_env_def quiet_env_def)
  then have "player_health s' = - 10"
    by (simp add: fight_game_def py_int_def)
  with s' show ?thesis by simp
qed

section \<open>Ticks after the game is over (C2)\<close>

text \<open>
  Claim C2 says that once \<open>game_over\<close> is set every later tick leaves the gameplay state
  unchanged while explosion emitters and damage popups go on being updated until they are
  gone. A tick on a finished game returns after updating the emitters (lemma
  \<open>on_update_over\<close>): the popup list is not touched. In \<open>over_game\<close> the last popup has
  59/60 s left; a tick of a full second updates the emitter and changes nothing else, so the
  popup is kept as it is, where the popup update of a running game would have dropped it.
\<close>

theorem game_over_tick_keeps_popup: "on_update quiet_env 1 over_game =
      Inr (over_game\<lparr>explosions := [\<lparr>em_x = 3850, em_y = 220, em_updates = 1\<rparr>]\<rparr>) \<and>
    damage_popups (over_game\<lparr>explosions := [\<lparr>em_x = 3850, em_y = 220, em_updates = 1\<rparr>]\<rparr>) =
      [(3800, 280, 20, 59 / 60)] \<and>
    damage_popups (update_popups 1 over_game) = []"
  by (simp add: on_update_def over_game_def emitter_update_def update_popups_def)

section \<open>Boss phase (C3)\<close>

text \<open>
  Claim C3: the phase \<open>update_behavior\<close> sets is a function of the ratio
  \<open>health / max_health\<close> alone: 1 when the ratio is above 0.66, 2 when it is above 0.33
  and at most 0.66, 3 when it is at most 0.33. The code divides by \<open>max(1, max_health)\<close>,
  which is \<open>max_health\<close> for every boss with \<open>max_health \<ge> 1\<close> (a spawned boss has at least
  80). The call returns, whatever the time step, the player position, the projectile list
  and the random draw are.
\<close>

theorem phase_by_health_ratio:   "1 \<le> max_health b \<Longrightarrow>
   \<exists>b' ps'. update_behavior u dt px b ps = Inr (b', ps') \<and>
   phase b' = (if real_of_int (health b) / real_of_int (max_health b) > 0.66 then 1
               else if real_of_int (health b) / real_of_int (max_health b) > 0.33 then 2 else 3)"
  using update_behavior_total[of u dt px b ps] update_behavior_phase[of b u dt px ps]
  by auto

theorem phase_by_health_ratio_witness: "(1::int) \<le> 100 \<and>
  (\<exists>b' ps'. update_behavior 1 (1/60) 200 (Boss_init\<lparr>health := 67\<rparr>) [] = Inr (b', ps') \<and> phase b' = 1) \<and>
  (\<exists>b' ps'. update_behavior 1 (1/60) 200 (Boss_init\<lparr>health := 50\<rparr>) [] = Inr (b', ps') \<and> phase b' = 2) \<and>
  (\<exists>b' ps'. update_behavior 1 (1/60) 200 (Boss_init\<lparr>health := 20\<rparr>) [] = Inr (b', ps') \<and> phase b' = 3)"
  using phase_by_health_ratio[of "Boss_init\<lparr>health := 67\<rparr>" 1 "1/60" 200 "[]"]
        phase_by_health_ratio[of "Boss_init\<lparr>health := 50\<rparr>" 1 "1/60" 200 "[]"]
        phase_by_health_ratio[of "Boss_init\<lparr>health := 20\<rparr>" 1 "1/60" 200 "[]"]
  by (simp add: Boss_init_def)

section \<open>Movement and distance (C4)\<close>

text \<open>
  Claim C4 says that a tick with \<open>dt \<le> 0\<close> leaves the player's x, the distance and the
  score unchanged. The update loop has no test on \<open>dt\<close>: with \<open>dt = -1\<close> and speed 180 the
  player of \<open>running_game\<close> moves from 3530 back to 3350, the distance goes from 1998 to
  1890 and the score from 166.5 to 157.5.
\<close>

theorem negative_dt_moves_back:
  "(- 1 :: real) \<le> 0 \<and>
   center_x (player running_game) = 3530 \<and> center_x (player (movement (- 1) running_game)) = 3350 \<and>
   distance running_game = 1998 \<and> distance (movement (- 1) running_game) = 1890 \<and>
   score running_game = 333 / 2 \<and> score (movement (- 1) running_game) = 315 / 2"
  by (simp add: movement_def running_game_def Let_def)

text \<open>
  Claim C4 as amended: for every \<open>dt\<close>, of either sign, the movement block adds
  \<open>speed * dt\<close> to the player's x, \<open>0.6 * (speed * dt)\<close> to the distance and
  \<open>0.05 * (speed * dt)\<close> to the score; it changes nothing when \<open>dt = 0\<close>. No later block of
  the tick writes the distance, so a tick of a running game ends with the distance advanced
  by \<open>0.6 * (speed * dt)\<close>.
\<close>

theorem distance_clock_advance:
  "center_x (player (movement dt s)) = center_x (player s) + speed s * dt \<and>
   distance (movement dt s) = distance s + 0.6 * (speed s * dt) \<and>
   score (movement dt s) = score s + 0.05 * (speed s * dt) \<and>
   movement 0 s = s \<and>
   (\<not> game_over s \<longrightarrow>
      (\<exists>s'. on_update env dt s = Inr s' \<and> distance s' = distance s + 0.6 * (speed s * dt)))"
  using on_update_ok[of s env dt]
  by (auto simp add: movement_def Let_def)

theorem distance_clock_advance_witness:
  "\<not> game_over running_game \<and>
   (\<exists>s'. on_update quiet_env (1/60) running_game = Inr s' \<and> distance s' = 1998 + 9/5)"
  using distance_clock_advance[of "1/60" running_game quiet_env]
  by (simp add: running_game_def)

section \<open>Next boss threshold (C5)\<close>

text \<open>
  Claim C5: in a tick of a running game whose distance after the movement block is not
  negative, the threshold \<open>next_boss_at\<close> changes exactly when a boss is spawned (no boss
  active and the distance has reached the threshold); the new threshold is then the old one
  plus \<open>2000 * (1 + distance / 8000)\<close>, which is strictly greater than the old one.
\<close>

theorem next_boss_threshold_increases:
  assumes "\<not> game_over s" and "0 \<le> distance s + 0.6 * (speed s * dt)"
  shows "\<exists>s'. on_update env dt s = Inr s' \<and> distance s' = distance s + 0.6 * (speed s * dt) \<and>
           (if \<not> boss_active s \<and> next_boss_at s \<le> distance s'
            then next_boss_at s' = next_boss_at s + 2000 * (1 + distance s' / 8000) \<and>
                 next_boss_at s < next_boss_at s'
            else next_boss_at s' = next_boss_at s)"
proof -
  obtain s' where s': "on_update env dt s = Inr s'"
      "distance s' = distance s + speed s * dt * 0.6"
      "next_boss_at s' =
             (if \<not> boss_active s \<and> next_boss_at s \<le> distance s'
              then next_boss_at s + 2000 * (1 + distance s' / 8000) else next_boss_at s)"
    using on_update_ok[OF assms(1), of env dt] by blast
  have "0 \<le> distance s'" using assms(2) s'(2) by simp
  then have "0 < 2000 * (1 + distance s' / 8000)" by simp
  with s' show ?thesis by auto
qed

theorem next_boss_threshold_increases_witness:
  "\<not> game_over running_game \<and>
   (\<exists>s'. on_update quiet_env (1/30) running_game = Inr s' \<and>
         distance s' = 10008 / 5 \<and>
         next_boss_at s' = 2000 + 2000 * (1 + (10008 / 5) / 8000) \<and> 2000 < next_boss_at s')"
  using next_boss_threshold_increases[of running_game "1/30" quiet_env]
  by (auto simp add: running_game_def)

section \<open>Skill cooldown (C6)\<close>

text \<open>
  Claim C6 says that the skill key with the cooldown at or below 0 always resets the
  cooldown to 3.0. The key handler returns before it looks at the key when the game is over:
  in \<open>over_game\<close> the cooldown is 0 and stays 0.
\<close>

theorem skill_ignored_after_game_over:
  "skill_cd over_game \<le> 0 \<and> on_key_press quiet_env X over_game = Inr (over_game, []) \<and>
   skill_cd over_game \<noteq> 3"
  by (simp add: on_key_press_X over_game_def)

text \<open>
  Claim C6 as amended: with the cooldown above 0 the skill key changes nothing at all; when
  the game is over it changes nothing either; with the cooldown at or below 0 in a running
  game it sets the cooldown to exactly 3.
\<close>

theorem skill_cooldown_gate:
  "(0 < skill_cd s \<longrightarrow> on_key_press env X s = Inr (s, [])) \<and>
   (game_over s \<longrightarrow> on_key_press env X s = Inr (s, [])) \<and>
   (skill_cd s \<le> 0 \<and> \<not> game_over s \<longrightarrow>
      (\<exists>s'. on_key_press env X s = Inr (s', []) \<and> skill_cd s' = 3))"
  using skill_ready[of s env]
  by (auto simp add: on_key_press_X skill_cooling)

theorem skill_cooldown_gate_witness:
  "0 < skill_cd (running_game\<lparr>skill_cd := 2\<rparr>) \<and>
   on_key_press quiet_env X (running_game\<lparr>skill_cd := 2\<rparr>) = Inr (running_game\<lparr>skill_cd := 2\<rparr>, []) \<and>
   game_over over_game \<and> on_key_press quiet_env X over_game = Inr (over_game, []) \<and>
   skill_cd running_game \<le> 0 \<and> \<not> game_over running_game \<and>
   (\<exists>s'. on_key_press quiet_env X running_game = Inr (s', []) \<and> skill_cd s' = 3)"
  using skill_cooldown_gate[of "running_game\<lparr>skill_cd := 2\<rparr>" quiet_env] skill_cooldown_gate[of over_game quiet_env]
    skill_cooldown_gate[of running_game quiet_env]
  by (simp add: running_game_def over_game_def)

section \<open>Skill without a boss (C7)\<close>

text \<open>
  Claim C7 says that in every state with no active boss and the skill off cooldown the skill
  key removes the obstacles within 220 units of the player. In \<open>over_game\<close> there is no
  boss, the cooldown is 0 and an obstacle stands 100 units from the player; the game is over,
  so the key is ignored and the obstacle stays.
\<close>

theorem skill_clears_nothing_after_game_over:
  "\<not> boss_active over_game \<and> boss over_game = None \<and> skill_cd over_game \<le> 0 \<and>
   obstacles over_game = [\<lparr>center_x = 3900, center_y = 200\<rparr>, \<lparr>center_x = 4600, center_y = 200\<rparr>] \<and>
   \<bar>3900 - center_x (player over_game)\<bar> < 220 \<and>
   on_key_press quiet_env X over_game = Inr (over_game, [])"
  by (simp add: on_key_press_X over_game_def)

text \<open>
  Claim C7 as amended: in a running game with no active boss and the cooldown at or below 0,
  the skill key removes exactly the obstacles whose horizontal distance to the player is
  below 220 (an obstacle at 220 or more stays, in its place in the list), sets the cooldown
  to 3, and changes nothing else: coins, projectiles, health, score and every other field
  are as before.
\<close>

theorem skill_clears_near_obstacles:
  assumes "\<not> game_over s" and "\<not> (boss_active s \<and> boss s \<noteq> None)" and "skill_cd s \<le> 0"
  shows "on_key_press env X s =
     Inr (s\<lparr>skill_cd := 3,
            obstacles := filter (\<lambda>ob. 220 \<le> \<bar>center_x ob - center_x (player s)\<bar>) (obstacles s)\<rparr>,
          [])"
  using assms by (simp add: on_key_press_X skill_clear)

theorem skill_clears_near_obstacles_witness:
  "\<not> game_over running_game \<and> \<not> (boss_active running_game \<and> boss running_game \<noteq> None) \<and>
   skill_cd running_game \<le> 0 \<and>
   on_key_press quiet_env X running_game =
     Inr (running_game\<lparr>skill_cd := 3, obstacles := [\<lparr>center_x = 4330, center_y = 200\<rparr>]\<rparr>, [])"
  using skill_clears_near_obstacles[of running_game quiet_env]
  by (simp add: running_game_def)

section \<open>Leaderboard (C8)\<close>

text \<open>
  Claim C8: whatever the leaderboard file held (nothing readable counts as the empty list)
  and whatever entry is saved, the list \<open>save_score\<close> stores is the first ten entries (all
  of them when there are fewer) of the combined list put in descending order of score, with
  entries of equal score in their order of insertion.
\<close>

theorem save_score_top_ten:
  "\<exists>ys. ranked (load_leaderboard file @ [\<lparr>e_name = nm, e_score = py_int sc\<rparr>]) ys \<and>
        save_score nm sc file = Some (take 10 ys) \<and>
        length (take 10 ys) = min 10 (Suc (length (load_leaderboard file)))"
proof -
  let ?xs = "load_leaderboard file @ [\<lparr>e_name = nm, e_score = py_int sc\<rparr>]"
  have r: "ranked ?xs (sorted_reverse e_score ?xs)"
    by (rule sorted_reverse_ranked)
  have "save_score nm sc file = Some (take 10 (sorted_reverse e_score ?xs))"
    by (simp add: save_score_def load_leaderboard_def Let_def)
  moreover have "length (sorted_reverse e_score ?xs) = Suc (length (load_leaderboard file))"
    by (simp add: sorted_reverse_def)
  ultimately show ?thesis
    using r by (intro exI[of _ "sorted_reverse e_score ?xs"]) (simp add: min_def)
qed

theorem save_score_top_ten_witness:
  "\<exists>ys. ranked ([\<lparr>e_name = ''B'', e_score = 5\<rparr>, \<lparr>e_name = ''C'', e_score = 7\<rparr>] @ [\<lparr>e_name = ''A'', e_score = 5\<rparr>]) ys \<and>
        save_score ''A'' 5 (Some [\<lparr>e_name = ''B'', e_score = 5\<rparr>, \<lparr>e_name = ''C'', e_score = 7\<rparr>]) = Some (take 10 ys) \<and>
        length (take 10 ys) = 3"
  using save_score_top_ten[of "Some [\<lparr>e_name = ''B'', e_score = 5\<rparr>, \<lparr>e_name = ''C'', e_score = 7\<rparr>]" "''A''" 5]
  by (simp add: load_leaderboard_def py_int_def numeral_3_eq_3)

section \<open>Boss invariant (C9)\<close>

text \<open>
  Claim C9: \<open>boss_active\<close> holds exactly when the \<open>boss\<close> field holds a boss. The
  constructor establishes this, and \<open>setup\<close>, every tick and every key press keep it.
  No tick and no key press raises, from any state: none of them reads a field of a cleared
  boss.
\<close>

theorem boss_active_iff_boss:
  "boss_inv (GameView_init file) \<and>
   (boss_inv s \<longrightarrow> boss_inv (GameView_setup mk ro rc ry s)) \<and>
   (\<exists>s'. on_update env dt s = Inr s' \<and> (boss_inv s \<longrightarrow> boss_inv s')) \<and>
   (\<exists>s' navs. on_key_press env k s = Inr (s', navs) \<and> (boss_inv s \<longrightarrow> boss_inv s'))"
proof -
  have "\<exists>s'. on_update env dt s = Inr s' \<and> (boss_inv s \<longrightarrow> boss_inv s')"
  proof (cases "game_over s")
    case True
    then show ?thesis by (simp add: on_update_over boss_inv_def)
  next
    case False
    from on_update_ok[OF this, of env dt] show ?thesis by blast
  qed
  then show ?thesis
    using on_key_press_ok[of env k s] setup_inv[of s mk ro rc ry]
    by (simp add: GameView_init_def boss_inv_def)
qed

theorem boss_active_iff_boss_witness:
  "boss_inv fight_game \<and>
   (\<exists>s'. on_update contact_env (1/60) fight_game = Inr s' \<and> boss_inv s') \<and>
   (\<exists>s' navs. on_key_press contact_env X fight_game = Inr (s', navs) \<and> boss_inv s')"
  using boss_active_iff_boss[of None fight_game id "\<lambda>i. 600" "\<lambda>i. 500" "\<lambda>i. 240" contact_env "1/60" X]
  by (simp add: boss_inv_def fight_game_def)

section \<open>Phase computation is total (C10)\<close>

text \<open>
  Claim C10: \<open>update_behavior\<close> returns for every boss, also one with
  \<open>max_health = 0\<close>: the divisor of the health ratio is \<open>max(1, max_health)\<close> and the
  divisor of the aim is \<open>max(abs(dx), 1)\<close>, so no division raises.
\<close>

theorem update_behavior_never_raises: "\<exists>b' ps'. update_behavior u dt px b ps = Inr (b', ps')"
  by (rule update_behavior_total)

theorem update_behavior_never_raises_witness:
  "\<exists>b' ps'. update_behavior 1 (1/60) 200 (Boss_init\<lparr>max_health := 0, health := 0\<rparr>) [] = Inr (b', ps')"
  using update_behavior_never_raises[of 1 "1/60" 200 "Boss_init\<lparr>max_health := 0, health := 0\<rparr>" "[]"] .

end
